theory Spec2Isabelle
  imports Complex_Main
begin

section \<open>Python values, exceptions and effects\<close>

text \<open>
  The notebook front-end of \<^verbatim>\<open>client.py\<close> is a set of widgets (the views
  \<^verbatim>\<open>gui_server\<close> and \<^verbatim>\<open>gui_play\<close>) and a controller (\<^verbatim>\<open>array\<close>) that
  forwards every action to an external acquisition client, to an SSH client and to the
  notebook's event loop. The external parts are opaque: what they answer is an input of
  the model (the record \<open>env\<close>), and what the code asks of them is logged, in order,
  in the controller's list of effects.

  An exception is its class name and the text \<^verbatim>\<open>str(e)\<close> gives. Every exception of
  the model is an instance of \<^verbatim>\<open>Exception\<close>, so \<^verbatim>\<open>except Exception\<close> catches each
  of them; \<^verbatim>\<open>except queue.Empty\<close> catches the class \<^verbatim>\<open>Empty\<close> only.
\<close>

datatype exn = Exn (exn_class: string) (exn_str: string)

datatype 'a outcome = Returned 'a | Raised exn

definition quote :: "string \<Rightarrow> string" where
  "quote s = [CHR 0x27] @ s @ [CHR 0x27]"

definition AttributeError :: "string \<Rightarrow> string \<Rightarrow> exn" where
  "AttributeError obj attr =
     Exn ''AttributeError'' (quote obj @ '' object has no attribute '' @ quote attr)"

definition KeyError :: "string \<Rightarrow> exn" where
  "KeyError k = Exn ''KeyError'' (quote k)"

text \<open>
  \<^verbatim>\<open>'Aborting: ' + e\<close> with \<open>e\<close> an exception object: \<^verbatim>\<open>str.__add__\<close> accepts a
  \<^verbatim>\<open>str\<close> only, and exception classes have no \<^verbatim>\<open>__radd__\<close>, so Python raises
  \<^verbatim>\<open>TypeError\<close> and builds no string.
\<close>

definition str_plus_exn :: "string \<Rightarrow> exn \<Rightarrow> exn + string" where
  "str_plus_exn s e =
     Inl (Exn ''TypeError''
       (''can only concatenate str (not '' @ [CHR 0x22] @ exn_class e @ [CHR 0x22] @ '') to str''))"

text \<open>\<^verbatim>\<open>str(n)\<close> of a Python int: its decimal digits, with a sign when negative.\<close>

function str_nat :: "nat \<Rightarrow> string" where
  "str_nat n =
     (if n < 10 then [char_of (48 + n)] else str_nat (n div 10) @ [char_of (48 + n mod 10)])"
  by pat_completeness auto
termination
  by (relation "measure id") auto

declare str_nat.simps [simp del]

definition str_int :: "int \<Rightarrow> string" where
  "str_int i = (if i < 0 then ''-'' @ str_nat (nat (- i)) else str_nat (nat i))"

text \<open>\<^verbatim>\<open>range(a, b)\<close>, and \<^verbatim>\<open>range(b)\<close> as \<^verbatim>\<open>range(0, b)\<close>.\<close>

definition py_range :: "int \<Rightarrow> int \<Rightarrow> int list" where
  "py_range a b = [a..b - 1]"

datatype pyval = PyInt int | PyBool bool | PyStr string | PyList "int list"

text \<open>
  The calls the controller makes on the acquisition client \<^verbatim>\<open>self.mu32\<close>; \<open>Run\<close>
  carries the keyword arguments in the order the source writes them.
\<close>

datatype mu32_call =
    Run "(string \<times> pyval) list"
  | Halt
  | H5_start
  | H5_stop
  | Signal_q_get int
  | Async_settings

datatype effect =
    Print string
  | Display
  | Call mu32_call
  | Create_task string
  | Ssh_connect string string string int
  | Ssh_exec_command string
  | Ssh_close

text \<open>
  The answers of the outside world during one operation: what each call on the
  acquisition client does (\<open>None\<close>: it returns), the item \<^verbatim>\<open>signal_q.get\<close> yields or
  the exception it raises, the client's sensitivity factor, the result of the settings
  future, and the SSH client (\<^verbatim>\<open>connect\<close> with host, user and password;
  \<^verbatim>\<open>exec_command\<close> followed by \<^verbatim>\<open>readlines\<close> on its standard output).
\<close>

record env =
  mu32_reply :: "mu32_call \<Rightarrow> exn option"
  signal_q_item :: "exn + int list list"
  sensibility :: real
  settings_result :: "exn + (string \<Rightarrow> int option)"
  ssh_connect :: "string \<Rightarrow> string \<Rightarrow> string \<Rightarrow> exn option"
  ssh_exec_command :: "string \<Rightarrow> exn + string list"

section \<open>Widgets and the server view\<close>

text \<open>
  A widget is the three traits this file reads or writes: \<^verbatim>\<open>description\<close>,
  \<^verbatim>\<open>value\<close> (written \<open>val\<close>) and \<^verbatim>\<open>disabled\<close>. A widget built without
  \<^verbatim>\<open>disabled\<close> is enabled, one built without \<^verbatim>\<open>value\<close> or \<^verbatim>\<open>description\<close> has
  the empty string.
\<close>

record widget =
  description :: string
  val :: string
  disabled :: bool

record gui_server =
  ip :: widget
  port :: widget
  array_nb :: widget
  fs :: widget
  blocksize :: widget
  button_connect :: widget
  status :: widget
  button_startacq :: widget
  button_stopacq :: widget
  button_startrec :: widget
  button_stoprec :: widget
  button_sos :: widget
  status_sos :: widget
  button_start_srv :: widget
  button_stop_srv :: widget
  passwd :: widget
  ligne4_visibility :: string

definition gui_server_init :: gui_server where
  "gui_server_init =
     \<lparr> ip = \<lparr>description = ''Adresse IP:'', val = ''10.3.141.1'', disabled = False\<rparr>,
       port = \<lparr>description = ''Port:'', val = ''9002'', disabled = False\<rparr>,
       array_nb = \<lparr>description = ''N'' @ [CHR 0xB0] @ '' d'' @ [CHR 0x27] @ ''antenne:'',
                    val = ''F0'', disabled = False\<rparr>,
       fs = \<lparr>description = ''Fs:'', val = '''', disabled = True\<rparr>,
       blocksize = \<lparr>description = ''Blocksize:'', val = '''', disabled = True\<rparr>,
       button_connect = \<lparr>description = ''Confirm'', val = '''', disabled = False\<rparr>,
       status = \<lparr>description = ''Status:'', val = '''', disabled = False\<rparr>,
       button_startacq = \<lparr>description = ''Start ACQ'', val = '''', disabled = True\<rparr>,
       button_stopacq = \<lparr>description = ''Stop ACQ'', val = '''', disabled = True\<rparr>,
       button_startrec = \<lparr>description = ''Start Recording'', val = '''', disabled = True\<rparr>,
       button_stoprec = \<lparr>description = ''Stop recording'', val = '''', disabled = True\<rparr>,
       button_sos = \<lparr>description = ''SOS'', val = '''', disabled = False\<rparr>,
       status_sos = \<lparr>description = ''Status:'', val = ''Waiting...'', disabled = False\<rparr>,
       button_start_srv = \<lparr>description = ''ADMIN: Start server'', val = '''', disabled = False\<rparr>,
       button_stop_srv = \<lparr>description = ''ADMIN: Stop server'', val = '''', disabled = False\<rparr>,
       passwd = \<lparr>description = ''Password:'', val = '''', disabled = False\<rparr>,
       ligne4_visibility = ''hidden'' \<rparr>"

definition gui_server_update_status :: "string \<Rightarrow> gui_server \<Rightarrow> gui_server" where
  "gui_server_update_status message g = g\<lparr>status := (status g)\<lparr>val := message\<rparr>\<rparr>"

definition ready_to_start :: "int \<Rightarrow> int \<Rightarrow> gui_server \<Rightarrow> gui_server" where
  "ready_to_start f b g =
     g\<lparr> gui_server.fs := (gui_server.fs g)\<lparr>val := str_int f\<rparr>,
        gui_server.blocksize := (gui_server.blocksize g)\<lparr>val := str_int b\<rparr>,
        ip := (ip g)\<lparr>disabled := True\<rparr>,
        port := (port g)\<lparr>disabled := True\<rparr>,
        array_nb := (array_nb g)\<lparr>disabled := True\<rparr>,
        button_connect := (button_connect g)\<lparr>disabled := True\<rparr>,
        button_startacq := (button_startacq g)\<lparr>disabled := False\<rparr>,
        button_stopacq := (button_stopacq g)\<lparr>disabled := True\<rparr>,
        button_startrec := (button_startrec g)\<lparr>disabled := False\<rparr>,
        button_stoprec := (button_stoprec g)\<lparr>disabled := True\<rparr>,
        status := (status g)\<lparr>val := ''Ready to start acquisition.''\<rparr> \<rparr>"

definition start_acq :: "gui_server \<Rightarrow> gui_server" where
  "start_acq g =
     g\<lparr> button_startacq := (button_startacq g)\<lparr>disabled := True\<rparr>,
        button_stopacq := (button_stopacq g)\<lparr>disabled := False\<rparr>,
        button_startrec := (button_startrec g)\<lparr>disabled := True\<rparr>,
        button_stoprec := (button_stoprec g)\<lparr>disabled := True\<rparr>,
        status := (status g)\<lparr>val := ''Acquisition started.''\<rparr> \<rparr>"

definition stop_acq :: "gui_server \<Rightarrow> gui_server" where
  "stop_acq g =
     g\<lparr> button_startacq := (button_startacq g)\<lparr>disabled := False\<rparr>,
        button_stopacq := (button_stopacq g)\<lparr>disabled := True\<rparr>,
        button_startrec := (button_startrec g)\<lparr>disabled := False\<rparr>,
        button_stoprec := (button_stoprec g)\<lparr>disabled := True\<rparr>,
        status := (status g)\<lparr>val := ''Acquisition stopped.''\<rparr> \<rparr>"

definition start_rec :: "gui_server \<Rightarrow> gui_server" where
  "start_rec g =
     g\<lparr> button_startacq := (button_startacq g)\<lparr>disabled := True\<rparr>,
        button_stopacq := (button_stopacq g)\<lparr>disabled := True\<rparr>,
        button_startrec := (button_startrec g)\<lparr>disabled := True\<rparr>,
        button_stoprec := (button_stoprec g)\<lparr>disabled := False\<rparr>,
        status := (status g)\<lparr>val := ''Recording to file...''\<rparr> \<rparr>"

definition stop_rec :: "gui_server \<Rightarrow> gui_server" where
  "stop_rec g =
     g\<lparr> button_startacq := (button_startacq g)\<lparr>disabled := False\<rparr>,
        button_stopacq := (button_stopacq g)\<lparr>disabled := True\<rparr>,
        button_startrec := (button_startrec g)\<lparr>disabled := False\<rparr>,
        button_stoprec := (button_stoprec g)\<lparr>disabled := True\<rparr>,
        status := (status g)\<lparr>val := ''File saved.''\<rparr> \<rparr>"

text \<open>
  \<^verbatim>\<open>gui_server.sos\<close> in two parts, as the source has them: the widget updates that
  come first, then the status probe over SSH. The view makes the SSH calls itself, so
  the function returns the effects it performed beside the new view. An exception of
  \<^verbatim>\<open>connect\<close> or of \<^verbatim>\<open>exec_command\<close>/\<^verbatim>\<open>readlines\<close> leaves the method at once: the
  widget updates already made stay, and \<^verbatim>\<open>close\<close> is not reached.
\<close>

definition sos_mode :: "gui_server \<Rightarrow> gui_server" where
  "sos_mode g =
     g\<lparr> gui_server.fs := (gui_server.fs g)\<lparr>val := ''''\<rparr>,
        gui_server.blocksize := (gui_server.blocksize g)\<lparr>val := ''''\<rparr>,
        button_connect := (button_connect g)\<lparr>disabled := True\<rparr>,
        button_startacq := (button_startacq g)\<lparr>disabled := True\<rparr>,
        button_startrec := (button_startrec g)\<lparr>disabled := True\<rparr>,
        button_start_srv := (button_start_srv g)\<lparr>disabled := True\<rparr>,
        button_stop_srv := (button_stop_srv g)\<lparr>disabled := True\<rparr>,
        status := (status g)\<lparr>val := ''SOS mode. For admin only.''\<rparr>,
        ligne4_visibility := ''visible'' \<rparr>"

definition sos_probe :: "string list \<Rightarrow> gui_server \<Rightarrow> gui_server" where
  "sos_probe srv g =
     (if srv = [''active\<newline>'']
      then g\<lparr> button_start_srv := (button_start_srv g)\<lparr>disabled := True\<rparr>,
              button_stop_srv := (button_stop_srv g)\<lparr>disabled := False\<rparr>,
              status_sos := (status_sos g)\<lparr>val := ''Server = '' @ ''OK''\<rparr> \<rparr>
      else g\<lparr> button_start_srv := (button_start_srv g)\<lparr>disabled := False\<rparr>,
              button_stop_srv := (button_stop_srv g)\<lparr>disabled := True\<rparr>,
              status_sos := (status_sos g)\<lparr>val := ''Server = '' @ ''ERROR''\<rparr> \<rparr>)"

definition sos :: "env \<Rightarrow> widget \<Rightarrow> gui_server \<Rightarrow> unit outcome \<times> gui_server \<times> effect list" where
  "sos e button g =
     (let g1 = sos_mode g;
          c = Ssh_connect (val (ip g1)) ''root'' ''toto@12!'' 5;
          q = ''systemctl is-active megamicros_server.service''
      in case ssh_connect e (val (ip g1)) ''root'' ''toto@12!'' of
           Some x \<Rightarrow> (Raised x, g1, [c])
         | None \<Rightarrow>
             (case ssh_exec_command e q of
                Inl x \<Rightarrow> (Raised x, g1, [c, Ssh_exec_command q])
              | Inr srv \<Rightarrow> (Returned (), sos_probe srv g1, [c, Ssh_exec_command q, Ssh_close])))"

section \<open>The playback view\<close>

record gui_play =
  file_filter_pattern :: string
  fs :: widget
  blocksize :: widget
  button_startplay :: widget
  button_stopplay :: widget
  status :: widget

definition gui_play_init :: gui_play where
  "gui_play_init =
     \<lparr> file_filter_pattern = ''*.h5'',
       fs = \<lparr>description = ''Fs:'', val = '''', disabled = True\<rparr>,
       blocksize = \<lparr>description = ''Blocksize:'', val = ''2048'', disabled = False\<rparr>,
       button_startplay = \<lparr>description = ''Play file'', val = '''', disabled = True\<rparr>,
       button_stopplay = \<lparr>description = ''Stop'', val = '''', disabled = True\<rparr>,
       status = \<lparr>description = ''Status:'', val = '''', disabled = False\<rparr> \<rparr>"

text \<open>
  \<^verbatim>\<open>update_data_info\<close> receives both arguments as strings (its caller applies
  \<^verbatim>\<open>str\<close>), and concatenates the second into the status text.
\<close>

definition update_data_info :: "string \<Rightarrow> string \<Rightarrow> gui_play \<Rightarrow> gui_play" where
  "update_data_info f duration g =
     g\<lparr> gui_play.fs := (gui_play.fs g)\<lparr>val := f\<rparr>,
        gui_play.blocksize := (gui_play.blocksize g)\<lparr>disabled := False\<rparr>,
        button_startplay := (button_startplay g)\<lparr>disabled := False\<rparr>,
        button_stopplay := (button_stopplay g)\<lparr>disabled := True\<rparr>,
        gui_play.status := (gui_play.status g)\<lparr>val := ''File duration = '' @ duration @ ''s.''\<rparr> \<rparr>"

definition start_read :: "gui_play \<Rightarrow> gui_play" where
  "start_read g =
     g\<lparr> gui_play.blocksize := (gui_play.blocksize g)\<lparr>disabled := True\<rparr>,
        button_startplay := (button_startplay g)\<lparr>disabled := True\<rparr>,
        button_stopplay := (button_stopplay g)\<lparr>disabled := False\<rparr>,
        gui_play.status := (gui_play.status g)\<lparr>val := ''Reading file''\<rparr> \<rparr>"

definition stop_read :: "gui_play \<Rightarrow> gui_play" where
  "stop_read g =
     g\<lparr> gui_play.blocksize := (gui_play.blocksize g)\<lparr>disabled := False\<rparr>,
        button_startplay := (button_startplay g)\<lparr>disabled := False\<rparr>,
        button_stopplay := (button_stopplay g)\<lparr>disabled := True\<rparr>,
        gui_play.status := (gui_play.status g)\<lparr>val := ''Reading stopped''\<rparr> \<rparr>"

definition gui_play_update_status :: "string \<Rightarrow> gui_play \<Rightarrow> gui_play" where
  "gui_play_update_status message g = g\<lparr>gui_play.status := (gui_play.status g)\<lparr>val := message\<rparr>\<rparr>"

section \<open>The controller in server mode\<close>

text \<open>
  The object \<^verbatim>\<open>array('server')\<close>. An attribute that Python creates on first
  assignment (\<^verbatim>\<open>mu32\<close>, \<^verbatim>\<open>mems_list\<close>, \<^verbatim>\<open>mems_nb\<close>, \<^verbatim>\<open>interspace\<close>,
  \<^verbatim>\<open>m\<close>) is an option, \<open>None\<close> while it does not exist: reading it then raises
  \<^verbatim>\<open>AttributeError\<close>. \<^verbatim>\<open>fs\<close> and \<^verbatim>\<open>blocksize\<close> are class attributes, 0 from the
  start. The acquisition client is known by the address it was built from; a buffer is
  a matrix of reals (the rounding of \<^verbatim>\<open>float32\<close> is left out).
\<close>

datatype mu32 = MemsArrayWS string string

record array =
  gui :: gui_server
  mu32 :: "mu32 option"
  mems_list :: "int list option"
  fs :: int
  blocksize :: int
  mems_nb :: "nat option"
  interspace :: "real option"
  m :: "real list list option"
  effects :: "effect list"

definition array_init :: array where
  "array_init =
     \<lparr> gui = gui_server_init, mu32 = None, mems_list = None, fs = 0, blocksize = 0,
       mems_nb = None, interspace = None, m = None, effects = [Display] \<rparr>"

definition perform :: "effect \<Rightarrow> array \<Rightarrow> array" where
  "perform x a = a\<lparr>effects := effects a @ [x]\<rparr>"

text \<open>One call on the acquisition client: logged, then it returns or raises.\<close>

definition call_mu32 :: "env \<Rightarrow> mu32_call \<Rightarrow> array \<Rightarrow> unit outcome \<times> array" where
  "call_mu32 e c a =
     (case mu32_reply e c of
        None \<Rightarrow> (Returned (), perform (Call c) a)
      | Some x \<Rightarrow> (Raised x, perform (Call c) a))"

text \<open>
  \<^verbatim>\<open>validateAcq_fct\<close>: the client object is built first, from the displayed address;
  then the selector chooses the microphone list, or the method prints and returns; at
  the end the settings task is handed to the event loop.
\<close>

definition validateAcq_fct :: "widget \<Rightarrow> array \<Rightarrow> unit outcome \<times> array" where
  "validateAcq_fct button a =
     (let a1 = a\<lparr>mu32 := Some (MemsArrayWS (val (ip (gui a))) (val (port (gui a))))\<rparr>;
          sel = val (array_nb (gui a1));
          launch = (\<lambda>l. (Returned (),
                     perform (Create_task ''validateAcq_fct_settings'') (a1\<lparr>mems_list := Some l\<rparr>)))
      in if sel = ''F0'' then launch (py_range 0 8)
         else if sel = ''F1'' then launch (py_range 8 16)
         else if sel = ''F2'' then launch (py_range 16 24)
         else if sel = ''F3'' then launch (py_range 24 32)
         else (Returned (), perform (Print ''ERROR: bad array number selected.'') a1))"

text \<open>
  \<^verbatim>\<open>validateAcq_fct_settings\<close>, run by the event loop, from its start to its end once
  the settings future has a result or an exception.
\<close>

definition validateAcq_fct_settings :: "env \<Rightarrow> array \<Rightarrow> unit outcome \<times> array" where
  "validateAcq_fct_settings e a =
     (case mu32 a of
        None \<Rightarrow> (Raised (AttributeError ''array'' ''mu32''), a)
      | Some d \<Rightarrow>
          (let a0 = perform (Create_task ''async_settings'') (perform (Call Async_settings) a)
           in case settings_result e of
                Inl x \<Rightarrow> (Raised x, a0)
              | Inr settings \<Rightarrow>
                  (case settings ''sampling_frequency'' of
                     None \<Rightarrow> (Raised (KeyError ''sampling_frequency''), a0)
                   | Some f \<Rightarrow>
                       (let a1 = a0\<lparr>array.fs := f\<rparr>
                        in case settings ''frame_length'' of
                             None \<Rightarrow> (Raised (KeyError ''frame_length''), a1)
                           | Some b \<Rightarrow>
                               (let a2 = a1\<lparr>array.blocksize := b\<rparr>
                                in case mems_list a2 of
                                     None \<Rightarrow> (Raised (AttributeError ''array'' ''mems_list''), a2)
                                   | Some l \<Rightarrow>
                                       (Returned (),
                                        a2\<lparr> mems_nb := Some (length l),
                                            interspace := Some (6 / 100),
                                            gui := ready_to_start (array.fs a2) (array.blocksize a2)
                                                     (gui a2) \<rparr>))))))"

definition acq_kwargs :: "int list \<Rightarrow> (string \<times> pyval) list" where
  "acq_kwargs l =
     [(''mems'', PyList l), (''duration'', PyInt 0), (''signal_q_size'', PyInt 1),
      (''job'', PyStr ''listen'')]"

definition rec_kwargs :: "int list \<Rightarrow> (string \<times> pyval) list" where
  "rec_kwargs l =
     [(''mems'', PyList l), (''duration'', PyInt 0), (''h5_recording'', PyBool True),
      (''h5_pass_through'', PyBool False), (''h5_rootdir'', PyStr ''./''),
      (''h5_compressing'', PyBool False), (''signal_q_size'', PyInt 0),
      (''job'', PyStr ''listen'')]"

text \<open>
  \<^verbatim>\<open>self.mu32.run(mems = self.mems_list, ...)\<close>: Python reads \<^verbatim>\<open>self.mu32\<close>, then
  the arguments, then calls.
\<close>

definition mu32_run :: "env \<Rightarrow> (int list \<Rightarrow> (string \<times> pyval) list) \<Rightarrow> array \<Rightarrow> unit outcome \<times> array" where
  "mu32_run e kwargs a =
     (case mu32 a of
        None \<Rightarrow> (Raised (AttributeError ''array'' ''mu32''), a)
      | Some d \<Rightarrow>
          (case mems_list a of
             None \<Rightarrow> (Raised (AttributeError ''array'' ''mems_list''), a)
           | Some l \<Rightarrow> call_mu32 e (Run (kwargs l)) a))"

definition mu32_method :: "env \<Rightarrow> mu32_call \<Rightarrow> array \<Rightarrow> unit outcome \<times> array" where
  "mu32_method e c a =
     (case mu32 a of
        None \<Rightarrow> (Raised (AttributeError ''array'' ''mu32''), a)
      | Some d \<Rightarrow> call_mu32 e c a)"

text \<open>The body of the \<^verbatim>\<open>try\<close> of \<^verbatim>\<open>startacq_fct\<close>, then the method with its handler.\<close>

definition startacq_try :: "env \<Rightarrow> array \<Rightarrow> unit outcome \<times> array" where
  "startacq_try e a =
     (case mu32_run e acq_kwargs a of
        (Raised x, a1) \<Rightarrow> (Raised x, a1)
      | (Returned u, a1) \<Rightarrow> (Returned (), a1\<lparr>gui := start_acq (gui a1)\<rparr>))"

definition startacq_fct :: "env \<Rightarrow> widget \<Rightarrow> array \<Rightarrow> unit outcome \<times> array" where
  "startacq_fct e button a =
     (case startacq_try e a of
        (Raised x, a1) \<Rightarrow>
          (Returned (), a1\<lparr>gui := gui_server_update_status (''Aborting: '' @ exn_str x) (gui a1)\<rparr>)
      | (Returned u, a1) \<Rightarrow> (Returned (), a1))"

definition stopacq_fct :: "env \<Rightarrow> widget \<Rightarrow> array \<Rightarrow> unit outcome \<times> array" where
  "stopacq_fct e button a =
     (case mu32_method e Halt a of
        (Raised x, a1) \<Rightarrow> (Raised x, a1)
      | (Returned u, a1) \<Rightarrow> (Returned (), a1\<lparr>gui := stop_acq (gui a1)\<rparr>))"

text \<open>
  \<^verbatim>\<open>startrec_fct\<close>: the view changes first, inside the \<^verbatim>\<open>try\<close>; the handler
  evaluates \<^verbatim>\<open>'Aborting: ' + e\<close> before it can call \<^verbatim>\<open>update_status\<close>.
\<close>

definition startrec_try :: "env \<Rightarrow> array \<Rightarrow> unit outcome \<times> array" where
  "startrec_try e a =
     (let a0 = a\<lparr>gui := start_rec (gui a)\<rparr>
      in case mu32_run e rec_kwargs a0 of
           (Raised x, a1) \<Rightarrow> (Raised x, a1)
         | (Returned u, a1) \<Rightarrow> mu32_method e H5_start a1)"

definition startrec_fct :: "env \<Rightarrow> widget \<Rightarrow> array \<Rightarrow> unit outcome \<times> array" where
  "startrec_fct e button a =
     (case startrec_try e a of
        (Raised x, a1) \<Rightarrow>
          (case str_plus_exn ''Aborting: '' x of
             Inl t \<Rightarrow> (Raised t, a1)
           | Inr message \<Rightarrow> (Returned (), a1\<lparr>gui := gui_server_update_status message (gui a1)\<rparr>))
      | (Returned u, a1) \<Rightarrow> (Returned (), a1))"

definition stoprec_fct :: "env \<Rightarrow> widget \<Rightarrow> array \<Rightarrow> unit outcome \<times> array" where
  "stoprec_fct e button a =
     (case mu32_method e H5_stop a of
        (Raised x, a1) \<Rightarrow> (Raised x, a1)
      | (Returned u, a1) \<Rightarrow>
          (case mu32_method e Halt a1 of
             (Raised x, a2) \<Rightarrow> (Raised x, a2)
           | (Returned u, a2) \<Rightarrow> (Returned (), a2\<lparr>gui := stop_rec (gui a2)\<rparr>)))"

text \<open>
  \<^verbatim>\<open>read\<close>: the item of the queue, converted and scaled, is stored in \<^verbatim>\<open>m\<close> and
  returned; \<^verbatim>\<open>queue.Empty\<close> alone is handled, and the method then returns \<^verbatim>\<open>None\<close>.
\<close>

definition read :: "env \<Rightarrow> array \<Rightarrow> real list list option outcome \<times> array" where
  "read e a =
     (case mu32 a of
        None \<Rightarrow> (Raised (AttributeError ''array'' ''mu32''), a)
      | Some d \<Rightarrow>
          (let a1 = perform (Call (Signal_q_get 5)) a
           in case signal_q_item e of
                Inr item \<Rightarrow>
                  (let buf = map (map (\<lambda>x. real_of_int x * sensibility e)) item
                   in (Returned (Some buf), a1\<lparr>m := Some buf\<rparr>))
              | Inl x \<Rightarrow>
                  (if exn_class x = ''Empty''
                   then (Returned None,
                         a1\<lparr>gui := gui_server_update_status ''ERROR: No data available'' (gui a1)\<rparr>)
                   else (Raised x, a1))))"

text \<open>
  \<^verbatim>\<open>sos_fct\<close>, bound to the two admin buttons: the password check, the SSH
  connection, the command chosen from the description of the button that was clicked.
\<close>

definition sos_fct :: "env \<Rightarrow> widget \<Rightarrow> array \<Rightarrow> unit outcome \<times> array" where
  "sos_fct e button a =
     (if val (passwd (gui a)) = ''''
      then (Returned (),
            perform (Print ''ERROR: please indicate the password to launch the command.'') a)
      else
        (let a1 = perform (Ssh_connect (val (ip (gui a))) ''root'' (val (passwd (gui a))) 5) a
         in case ssh_connect e (val (ip (gui a))) ''root'' (val (passwd (gui a))) of
              Some x \<Rightarrow> (Raised x, a1)
            | None \<Rightarrow>
                (let (command, a2) =
                       (if description button = ''ADMIN: Stop server''
                        then (''systemctl stop megamicros_server'',
                              a1\<lparr>gui := (gui a1)
                                   \<lparr> button_start_srv := (button_start_srv (gui a1))\<lparr>disabled := False\<rparr>,
                                     button_stop_srv := (button_stop_srv (gui a1))\<lparr>disabled := True\<rparr> \<rparr>\<rparr>)
                        else if description button = ''ADMIN: Start server''
                        then (''systemctl start megamicros_server'',
                              a1\<lparr>gui := (gui a1)
                                   \<lparr> button_start_srv := (button_start_srv (gui a1))\<lparr>disabled := True\<rparr>,
                                     button_stop_srv := (button_stop_srv (gui a1))\<lparr>disabled := False\<rparr> \<rparr>\<rparr>)
                        else (''ls'', perform (Print ''Unkown button...'') a1));
                     a3 = perform (Ssh_exec_command command) a2
                 in case ssh_exec_command e command of
                      Inl x \<Rightarrow> (Raised x, a3)
                    | Inr out \<Rightarrow> (Returned (), perform Ssh_close a3))))"

text \<open>The view's own \<^verbatim>\<open>sos\<close> (the SOS button), on the controller's state.\<close>

definition gui_sos :: "env \<Rightarrow> widget \<Rightarrow> array \<Rightarrow> unit outcome \<times> array" where
  "gui_sos e button a =
     (case sos e button (gui a) of
        (r, g', xs) \<Rightarrow> (r, a\<lparr>gui := g', effects := effects a @ xs\<rparr>))"

section \<open>Sessions of the server front-end\<close>

text \<open>
  What can happen to the front-end, one operation at a time: a click on one of its
  buttons (the callback receives the clicked widget), the event loop running the
  settings task, a call of \<^verbatim>\<open>read\<close> from a notebook cell, the user typing into an
  input. \<open>Op_sos_fct\<close> carries the widget handed to \<^verbatim>\<open>sos_fct\<close>. No operation is
  held back by the enablement of its widget, so a session may also call the callbacks
  from code.
\<close>

datatype op =
    Op_validateAcq_fct
  | Op_validateAcq_fct_settings
  | Op_startacq_fct
  | Op_stopacq_fct
  | Op_startrec_fct
  | Op_stoprec_fct
  | Op_read
  | Op_sos
  | Op_sos_fct widget
  | Edit_ip string
  | Edit_port string
  | Edit_array_nb string
  | Edit_passwd string

definition raised :: "'a outcome \<Rightarrow> exn option" where
  "raised r = (case r of Returned v \<Rightarrow> None | Raised x \<Rightarrow> Some x)"

definition edit :: "(gui_server \<Rightarrow> gui_server) \<Rightarrow> array \<Rightarrow> exn option \<times> array" where
  "edit f a = (None, a\<lparr>gui := f (gui a)\<rparr>)"

fun run_op :: "env \<Rightarrow> op \<Rightarrow> array \<Rightarrow> exn option \<times> array" where
  "run_op e Op_validateAcq_fct a = apfst raised (validateAcq_fct (button_connect (gui a)) a)"
| "run_op e Op_validateAcq_fct_settings a = apfst raised (validateAcq_fct_settings e a)"
| "run_op e Op_startacq_fct a = apfst raised (startacq_fct e (button_startacq (gui a)) a)"
| "run_op e Op_stopacq_fct a = apfst raised (stopacq_fct e (button_stopacq (gui a)) a)"
| "run_op e Op_startrec_fct a = apfst raised (startrec_fct e (button_startrec (gui a)) a)"
| "run_op e Op_stoprec_fct a = apfst raised (stoprec_fct e (button_stoprec (gui a)) a)"
| "run_op e Op_read a = apfst raised (read e a)"
| "run_op e Op_sos a = apfst raised (gui_sos e (button_sos (gui a)) a)"
| "run_op e (Op_sos_fct button) a = apfst raised (sos_fct e button a)"
| "run_op e (Edit_ip v) a = edit (\<lambda>g. g\<lparr>ip := (ip g)\<lparr>val := v\<rparr>\<rparr>) a"
| "run_op e (Edit_port v) a = edit (\<lambda>g. g\<lparr>port := (port g)\<lparr>val := v\<rparr>\<rparr>) a"
| "run_op e (Edit_array_nb v) a = edit (\<lambda>g. g\<lparr>array_nb := (array_nb g)\<lparr>val := v\<rparr>\<rparr>) a"
| "run_op e (Edit_passwd v) a = edit (\<lambda>g. g\<lparr>passwd := (passwd g)\<lparr>val := v\<rparr>\<rparr>) a"

text \<open>
  A session is the list of its operations, the latest first, each with the exception it
  ended with (\<open>None\<close>: it returned); \<open>reachable tr a\<close> says that the session \<open>tr\<close>,
  started on a new \<^verbatim>\<open>array('server')\<close>, leaves the controller in state \<open>a\<close>.
\<close>

inductive reachable :: "(op \<times> exn option) list \<Rightarrow> array \<Rightarrow> bool" where
  start: "reachable [] array_init"
| step: "reachable tr a \<Longrightarrow> reachable ((x, fst (run_op e x a)) # tr) (snd (run_op e x a))"

text \<open>
  \<^verbatim>\<open>ready_to_start\<close> is the last statement of the settings task, and nothing else
  calls it: it has run when the task has once returned. The view's \<^verbatim>\<open>sos\<close> has been
  entered when the SOS button's callback has been run, whatever its end.
\<close>

definition ready_ran :: "(op \<times> exn option) list \<Rightarrow> bool" where
  "ready_ran tr = ((Op_validateAcq_fct_settings, None) \<in> set tr)"

definition sos_entered :: "(op \<times> exn option) list \<Rightarrow> bool" where
  "sos_entered tr = (Op_sos \<in> set (map fst tr))"

section \<open>Two concrete outside worlds\<close>

definition env_up :: env where
  "env_up =
     \<lparr> mu32_reply = (\<lambda>c. None),
       signal_q_item = Inr [[1, 2], [3, 4]],
       sensibility = 1,
       settings_result = Inr [''sampling_frequency'' \<mapsto> 50000, ''frame_length'' \<mapsto> 512],
       ssh_connect = (\<lambda>host user password. None),
       ssh_exec_command = (\<lambda>command. Inr [''active\<newline>'']) \<rparr>"

definition env_down :: env where
  "env_down =
     \<lparr> mu32_reply = (\<lambda>c. Some (Exn ''Exception'' ''boom'')),
       signal_q_item = Inl (Exn ''Empty'' ''''),
       sensibility = 1,
       settings_result = Inl (Exn ''Exception'' ''no settings''),
       ssh_connect = (\<lambda>host user password. None),
       ssh_exec_command = (\<lambda>command. Inr [''inactive\<newline>'']) \<rparr>"

text \<open>The controller after a click on Confirm and the settings task, all going well.\<close>

definition array_ready :: array where
  "array_ready =
     snd (validateAcq_fct_settings env_up
       (snd (validateAcq_fct (button_connect gui_server_init) array_init)))"

section \<open>Observations\<close>

text \<open>The \<^verbatim>\<open>disabled\<close> trait of every widget of the server view, in the order of its fields.\<close>

definition enablement :: "gui_server \<Rightarrow> bool list" where
  "enablement g =
     map (\<lambda>w. disabled (w g))
       [ip, port, array_nb, gui_server.fs, gui_server.blocksize, button_connect,
        gui_server.status, button_startacq, button_stopacq, button_startrec, button_stoprec,
        button_sos, status_sos, button_start_srv, button_stop_srv, passwd]"

text \<open>The same trait of the four connection inputs: address, port, selector, Confirm.\<close>

definition connection_inputs :: "gui_server \<Rightarrow> bool list" where
  "connection_inputs g =
     [disabled (ip g), disabled (port g), disabled (array_nb g), disabled (button_connect g)]"

text \<open>The options of the selector's dropdown; a selector's index is its place in them.\<close>

definition array_nb_options :: "string list" where
  "array_nb_options = [''F0'', ''F1'', ''F2'', ''F3'']"

text \<open>A new controller whose selector holds a value that is none of the options.\<close>

definition array_F4 :: array where
  "array_F4 = snd (run_op env_up (Edit_array_nb ''F4'') array_init)"

text \<open>New controllers on which the user has chosen the second and the fourth option.\<close>

definition array_F1 :: array where
  "array_F1 = snd (run_op env_up (Edit_array_nb ''F1'') array_init)"

definition array_F3 :: array where
  "array_F3 = snd (run_op env_up (Edit_array_nb ''F3'') array_init)"

text \<open>
  Three more states of a session: after a successful \<^verbatim>\<open>read\<close>, after a click on
  Start Recording that the acquisition client refused, and a new controller whose
  password field has been filled in.
\<close>

definition array_buffered :: array where
  "array_buffered = snd (read env_up array_ready)"


definition array_passwd :: array where
  "array_passwd = snd (run_op env_up (Edit_passwd ''secret'') array_init)"

section \<open>Facts used by several proofs\<close>

lemma py_range_8: "py_range (int k * 8) (int k * 8 + 8) = map (\<lambda>i. int (k * 8 + i)) [0..<8]"
proof -
  have "[int k * 8..int k * 8 + 8 - 1] = map (\<lambda>i. int k * 8 + int i) [0..<8]"
    by (simp add: upto_rec1 upt_rec numeral_eq_Suc)
  thus ?thesis by (simp add: py_range_def)
qed

lemma py_range_values:
  "py_range 0 8 = [0, 1, 2, 3, 4, 5, 6, 7]"
  "py_range 8 16 = [8, 9, 10, 11, 12, 13, 14, 15]"
  "py_range 16 24 = [16, 17, 18, 19, 20, 21, 22, 23]"
  "py_range 24 32 = [24, 25, 26, 27, 28, 29, 30, 31]"
  by (simp_all add: py_range_def upto_rec1)

lemma call_mu32_gui: "gui (snd (call_mu32 e c a)) = gui a"
  by (simp add: call_mu32_def perform_def split: option.split)

lemma mu32_method_gui: "gui (snd (mu32_method e c a)) = gui a"
  by (simp add: mu32_method_def call_mu32_gui split: option.split)

lemma mu32_run_gui: "gui (snd (mu32_run e k a)) = gui a"
  by (simp add: mu32_run_def call_mu32_gui split: option.split)

lemma raised_None: "(raised r = None) = (\<exists>v. r = Returned v)"
  by (cases r) (simp_all add: raised_def)

lemma array_ready_eq:
  "array_ready =
     \<lparr> gui = ready_to_start 50000 512 gui_server_init,
       mu32 = Some (MemsArrayWS ''10.3.141.1'' ''9002''),
       mems_list = Some [0, 1, 2, 3, 4, 5, 6, 7],
       fs = 50000, blocksize = 512, mems_nb = Some 8, interspace = Some (6 / 100), m = None,
       effects = [Display, Create_task ''validateAcq_fct_settings'', Call Async_settings,
                  Create_task ''async_settings''] \<rparr>"
  by (simp add: py_range_values array_ready_def validateAcq_fct_settings_def validateAcq_fct_def perform_def
      array_init_def gui_server_init_def env_up_def)

lemma array_ready_mu32: "mu32 array_ready = Some (MemsArrayWS ''10.3.141.1'' ''9002'')"
  by (simp add: array_ready_eq)

lemma array_ready_mems_list: "mems_list array_ready = Some [0, 1, 2, 3, 4, 5, 6, 7]"
  by (simp add: array_ready_eq)

section \<open>The microphone list chosen by the selector\<close>

text \<open>
  C1, as stated, says that a selector outside \<^verbatim>\<open>'F0'\<close> .. \<^verbatim>\<open>'F3'\<close> changes no
  state beyond the printed error. On a new controller whose selector holds \<^verbatim>\<open>'F4'\<close>,
  \<^verbatim>\<open>validateAcq_fct\<close> creates the attribute \<^verbatim>\<open>mu32\<close>, which did not exist before:
  the client object is built before the selector is looked at.
\<close>

theorem validateAcq_fct_bad_selector_counterexample:
  "val (array_nb (gui array_F4)) = ''F4''
   \<and> mu32 array_F4 = None
   \<and> mu32 (snd (validateAcq_fct (button_connect (gui array_F4)) array_F4))
       = Some (MemsArrayWS ''10.3.141.1'' ''9002'')"
  by (simp add: array_F4_def edit_def array_init_def gui_server_init_def validateAcq_fct_def
      perform_def)

text \<open>
  C1, amended: the selector with index \<open>k\<close> among the four options gives the
  microphone list \<open>8k, 8k + 1, ..., 8k + 7\<close>. For a selector that is none of the four,
  \<^verbatim>\<open>validateAcq_fct\<close> prints the error and returns; the microphone list, the view
  and every other attribute are as before and no settings task is created, but
  \<^verbatim>\<open>mu32\<close> has been replaced by a client built from the displayed address and port.
\<close>

theorem validateAcq_fct_selector:
  "(k < 4 \<and> val (array_nb (gui a)) = array_nb_options ! k \<longrightarrow>
      mems_list (snd (validateAcq_fct button a)) = Some (map (\<lambda>i. int (k * 8 + i)) [0..<8]))
   \<and> (val (array_nb (gui a)) \<notin> set array_nb_options \<longrightarrow>
        validateAcq_fct button a
          = (Returned (),
             a\<lparr> mu32 := Some (MemsArrayWS (val (ip (gui a))) (val (port (gui a)))),
                effects := effects a @ [Print ''ERROR: bad array number selected.''] \<rparr>))"
proof (intro conjI impI)
  assume h: "k < 4 \<and> val (array_nb (gui a)) = array_nb_options ! k"
  then consider "k = 0" | "k = 1" | "k = 2" | "k = 3" by linarith
  then show "mems_list (snd (validateAcq_fct button a)) = Some (map (\<lambda>i. int (k * 8 + i)) [0..<8])"
  proof cases
    case 1
    with h py_range_8 [of 0] show ?thesis
      by (simp add: validateAcq_fct_def array_nb_options_def perform_def)
  next
    case 2
    with h py_range_8 [of 1] show ?thesis
      by (simp add: validateAcq_fct_def array_nb_options_def perform_def)
  next
    case 3
    with h py_range_8 [of 2] show ?thesis
      by (simp add: validateAcq_fct_def array_nb_options_def perform_def)
  next
    case 4
    with h py_range_8 [of 3] show ?thesis
      by (simp add: validateAcq_fct_def array_nb_options_def perform_def)
  qed
next
  assume "val (array_nb (gui a)) \<notin> set array_nb_options"
  then show "validateAcq_fct button a
          = (Returned (),
             a\<lparr> mu32 := Some (MemsArrayWS (val (ip (gui a))) (val (port (gui a)))),
                effects := effects a @ [Print ''ERROR: bad array number selected.''] \<rparr>)"
    by (simp add: validateAcq_fct_def array_nb_options_def perform_def)
qed

theorem validateAcq_fct_selector_witness:
  "((1::nat) < 4 \<and> val (array_nb (gui array_F1)) = array_nb_options ! 1)
   \<and> mems_list (snd (validateAcq_fct (button_connect (gui array_F1)) array_F1))
       = Some [8, 9, 10, 11, 12, 13, 14, 15]
   \<and> ((3::nat) < 4 \<and> val (array_nb (gui array_F3)) = array_nb_options ! 3)
   \<and> mems_list (snd (validateAcq_fct (button_connect (gui array_F3)) array_F3))
       = Some [24, 25, 26, 27, 28, 29, 30, 31]
   \<and> val (array_nb (gui array_F4)) \<notin> set array_nb_options
   \<and> validateAcq_fct (button_connect (gui array_F4)) array_F4
       = (Returned (),
          array_F4\<lparr> mu32 := Some (MemsArrayWS ''10.3.141.1'' ''9002''),
                    effects := [Display, Print ''ERROR: bad array number selected.''] \<rparr>)"
proof -
  have g1: "val (array_nb (gui array_F1)) = ''F1''"
    and g3: "val (array_nb (gui array_F3)) = ''F3''"
    and g4: "val (array_nb (gui array_F4)) = ''F4''"
    and a4: "val (ip (gui array_F4)) = ''10.3.141.1''" "val (port (gui array_F4)) = ''9002''"
            "effects array_F4 = [Display]"
    by (simp_all add: array_F1_def array_F3_def array_F4_def edit_def array_init_def
        gui_server_init_def)
  have u: "map (\<lambda>i. 8 + int i) [0..<8] = [8, 9, 10, 11, 12, 13, 14, 15]"
          "map (\<lambda>i. 24 + int i) [0..<8] = [24, 25, 26, 27, 28, 29, 30, 31]"
    by (simp_all add: upt_rec)
  show ?thesis
    using validateAcq_fct_selector [of 1 array_F1 "button_connect (gui array_F1)"]
      validateAcq_fct_selector [of 3 array_F3 "button_connect (gui array_F3)"]
      validateAcq_fct_selector [of 0 array_F4 "button_connect (gui array_F4)"]
    by (simp add: g1 g3 g4 a4 u array_nb_options_def)
qed

section \<open>The admin status probe\<close>

text \<open>
  C2: when the view's \<^verbatim>\<open>sos\<close> has connected and read the lines the status command
  printed, the lines \<^verbatim>\<open>['active\n']\<close> give the status text \<^verbatim>\<open>Server = OK\<close> with
  the start-server button disabled and the stop-server button enabled; any other lines
  give \<^verbatim>\<open>Server = ERROR\<close> with the start-server button enabled and the stop-server
  button disabled.
\<close>

theorem sos_probe_branches:
  assumes "ssh_connect e (val (ip g)) ''root'' ''toto@12!'' = None"
    and "ssh_exec_command e ''systemctl is-active megamicros_server.service'' = Inr srv"
  shows "fst (sos e button g) = Returned ()
         \<and> val (status_sos (fst (snd (sos e button g))))
             = (if srv = [''active\<newline>''] then ''Server = OK'' else ''Server = ERROR'')
         \<and> disabled (button_start_srv (fst (snd (sos e button g)))) = (srv = [''active\<newline>''])
         \<and> disabled (button_stop_srv (fst (snd (sos e button g)))) = (srv \<noteq> [''active\<newline>''])"
  using assms by (simp add: sos_def sos_mode_def sos_probe_def Let_def)

theorem sos_probe_branches_witness:
  "ssh_connect env_up (val (ip gui_server_init)) ''root'' ''toto@12!'' = None
   \<and> ssh_exec_command env_up ''systemctl is-active megamicros_server.service''
       = Inr [''active\<newline>'']
   \<and> val (status_sos (fst (snd (sos env_up (button_sos gui_server_init) gui_server_init))))
       = ''Server = OK''
   \<and> disabled (button_start_srv (fst (snd (sos env_up (button_sos gui_server_init) gui_server_init))))
   \<and> \<not> disabled (button_stop_srv (fst (snd (sos env_up (button_sos gui_server_init) gui_server_init))))
   \<and> ssh_connect env_down (val (ip gui_server_init)) ''root'' ''toto@12!'' = None
   \<and> ssh_exec_command env_down ''systemctl is-active megamicros_server.service''
       = Inr [''inactive\<newline>'']
   \<and> val (status_sos (fst (snd (sos env_down (button_sos gui_server_init) gui_server_init))))
       = ''Server = ERROR''
   \<and> \<not> disabled (button_start_srv (fst (snd (sos env_down (button_sos gui_server_init) gui_server_init))))
   \<and> disabled (button_stop_srv (fst (snd (sos env_down (button_sos gui_server_init) gui_server_init))))"
proof -
  have up: "ssh_connect env_up (val (ip gui_server_init)) ''root'' ''toto@12!'' = None"
    "ssh_exec_command env_up ''systemctl is-active megamicros_server.service''
       = Inr [''active\<newline>'']"
    by (simp_all add: env_up_def)
  have down: "ssh_connect env_down (val (ip gui_server_init)) ''root'' ''toto@12!'' = None"
    "ssh_exec_command env_down ''systemctl is-active megamicros_server.service''
       = Inr [''inactive\<newline>'']"
    by (simp_all add: env_down_def)
  show ?thesis
    using sos_probe_branches [OF up, of "button_sos gui_server_init"]
      sos_probe_branches [OF down, of "button_sos gui_server_init"] up down
    by simp
qed

section \<open>Starting a recording\<close>

text \<open>
  C3: \<^verbatim>\<open>startrec_fct\<close> puts the view in its Recording state before it calls the
  acquisition client, and the view stays there when the client's \<^verbatim>\<open>run\<close> raises. The
  error is not reported in the status text, though: the handler's
  \<^verbatim>\<open>'Aborting: ' + e\<close> raises \<^verbatim>\<open>TypeError\<close>, \<^verbatim>\<open>update_status\<close> is never called,
  and the callback ends with that \<^verbatim>\<open>TypeError\<close>. The status text remains
  \<^verbatim>\<open>Recording to file...\<close>.
\<close>

theorem startrec_fct_failure:
  assumes "mu32 a = Some d" and "mems_list a = Some l"
    and "mu32_reply e (Run (rec_kwargs l)) = Some x"
  shows "startrec_fct e button a
           = (Raised (Exn ''TypeError''
                (''can only concatenate str (not '' @ [CHR 0x22] @ exn_class x @ [CHR 0x22]
                  @ '') to str'')),
              a\<lparr> gui := start_rec (gui a),
                 effects := effects a @ [Call (Run (rec_kwargs l))] \<rparr>)"
  using assms
  by (simp add: startrec_fct_def startrec_try_def mu32_run_def call_mu32_def perform_def
      str_plus_exn_def)

theorem startrec_fct_failure_witness:
  "mu32 array_ready = Some (MemsArrayWS ''10.3.141.1'' ''9002'')
   \<and> mems_list array_ready = Some [0, 1, 2, 3, 4, 5, 6, 7]
   \<and> mu32_reply env_down (Run (rec_kwargs [0, 1, 2, 3, 4, 5, 6, 7])) = Some (Exn ''Exception'' ''boom'')
   \<and> fst (startrec_fct env_down (button_startrec (gui array_ready)) array_ready)
       = Raised (Exn ''TypeError''
           (''can only concatenate str (not '' @ [CHR 0x22] @ ''Exception'' @ [CHR 0x22] @ '') to str''))
   \<and> val (gui_server.status (gui (snd (startrec_fct env_down (button_startrec (gui array_ready)) array_ready))))
       = ''Recording to file...''
   \<and> \<not> disabled (button_stoprec (gui (snd (startrec_fct env_down (button_startrec (gui array_ready)) array_ready))))"
proof -
  have r: "mu32_reply env_down (Run (rec_kwargs [0, 1, 2, 3, 4, 5, 6, 7])) = Some (Exn ''Exception'' ''boom'')"
    by (simp add: env_down_def)
  show ?thesis
    using startrec_fct_failure [OF array_ready_mu32 array_ready_mems_list r,
        of "button_startrec (gui array_ready)"] r
    by (simp add: array_ready_mu32 array_ready_mems_list start_rec_def)
qed

section \<open>Starting an acquisition\<close>

text \<open>
  C4: when the acquisition client's \<^verbatim>\<open>run\<close> raises in \<^verbatim>\<open>startacq_fct\<close>, the
  callback returns, the status text is \<^verbatim>\<open>Aborting: \<close> followed by the text of the
  exception, and no widget's \<^verbatim>\<open>disabled\<close> trait changes. When \<^verbatim>\<open>run\<close> returns, the
  view makes its \<^verbatim>\<open>start_acq\<close> transition; the enablement changes in that case only.
\<close>

theorem startacq_fct_outcome:
  assumes "mu32 a = Some d" and "mems_list a = Some l"
  shows "(mu32_reply e (Run (acq_kwargs l)) = Some x \<longrightarrow>
            fst (startacq_fct e button a) = Returned ()
            \<and> gui (snd (startacq_fct e button a))
                = gui_server_update_status (''Aborting: '' @ exn_str x) (gui a)
            \<and> enablement (gui (snd (startacq_fct e button a))) = enablement (gui a))
         \<and> (mu32_reply e (Run (acq_kwargs l)) = None \<longrightarrow>
              gui (snd (startacq_fct e button a)) = start_acq (gui a))
         \<and> (enablement (gui (snd (startacq_fct e button a))) \<noteq> enablement (gui a) \<longrightarrow>
              mu32_reply e (Run (acq_kwargs l)) = None)"
  using assms
  by (cases "mu32_reply e (Run (acq_kwargs l))")
     (simp_all add: startacq_fct_def startacq_try_def mu32_run_def call_mu32_def perform_def
        gui_server_update_status_def enablement_def)

theorem startacq_fct_outcome_witness:
  "mu32 array_ready = Some (MemsArrayWS ''10.3.141.1'' ''9002'')
   \<and> mems_list array_ready = Some [0, 1, 2, 3, 4, 5, 6, 7]
   \<and> mu32_reply env_down (Run (acq_kwargs [0, 1, 2, 3, 4, 5, 6, 7])) = Some (Exn ''Exception'' ''boom'')
   \<and> fst (startacq_fct env_down (button_startacq (gui array_ready)) array_ready) = Returned ()
   \<and> val (gui_server.status (gui (snd (startacq_fct env_down (button_startacq (gui array_ready)) array_ready))))
       = ''Aborting: boom''
   \<and> enablement (gui (snd (startacq_fct env_down (button_startacq (gui array_ready)) array_ready)))
       = enablement (gui array_ready)
   \<and> mu32_reply env_up (Run (acq_kwargs [0, 1, 2, 3, 4, 5, 6, 7])) = None
   \<and> gui (snd (startacq_fct env_up (button_startacq (gui array_ready)) array_ready))
       = start_acq (gui array_ready)"
proof -
  have down: "mu32_reply env_down (Run (acq_kwargs [0, 1, 2, 3, 4, 5, 6, 7])) = Some (Exn ''Exception'' ''boom'')"
    by (simp add: env_down_def)
  have up: "mu32_reply env_up (Run (acq_kwargs [0, 1, 2, 3, 4, 5, 6, 7])) = None"
    by (simp add: env_up_def)
  show ?thesis
    using startacq_fct_outcome [OF array_ready_mu32 array_ready_mems_list,
        of env_down "Exn ''Exception'' ''boom''" "button_startacq (gui array_ready)"]
      startacq_fct_outcome [OF array_ready_mu32 array_ready_mems_list,
        of env_up "Exn ''Exception'' ''boom''" "button_startacq (gui array_ready)"] down up
    by (simp add: array_ready_mu32 array_ready_mems_list gui_server_update_status_def
        enablement_def)
qed

section \<open>Reading a buffer\<close>

text \<open>
  C5: when the queue read of \<^verbatim>\<open>read\<close> raises \<^verbatim>\<open>queue.Empty\<close>, the method does not
  raise and returns \<^verbatim>\<open>None\<close>, the attribute \<^verbatim>\<open>m\<close> keeps its value, and the status
  text says that no data is available.
\<close>

theorem read_timeout:
  assumes "mu32 a = Some d" and "signal_q_item e = Inl x" and "exn_class x = ''Empty''"
  shows "fst (read e a) = Returned None
         \<and> m (snd (read e a)) = m a
         \<and> val (gui_server.status (gui (snd (read e a)))) = ''ERROR: No data available''"
  using assms by (simp add: read_def perform_def gui_server_update_status_def Let_def)

theorem read_timeout_witness:
  "mu32 array_buffered = Some (MemsArrayWS ''10.3.141.1'' ''9002'')
   \<and> signal_q_item env_down = Inl (Exn ''Empty'' [])
   \<and> exn_class (Exn ''Empty'' []) = ''Empty''
   \<and> m array_buffered = Some [[1, 2], [3, 4]]
   \<and> fst (read env_down array_buffered) = Returned None
   \<and> m (snd (read env_down array_buffered)) = Some [[1, 2], [3, 4]]
   \<and> val (gui_server.status (gui (snd (read env_down array_buffered)))) = ''ERROR: No data available''"
proof -
  have b: "mu32 array_buffered = Some (MemsArrayWS ''10.3.141.1'' ''9002'')"
    "m array_buffered = Some [[1, 2], [3, 4]]"
    by (simp_all add: array_buffered_def read_def array_ready_mu32 perform_def env_up_def Let_def)
  have q: "signal_q_item env_down = Inl (Exn ''Empty'' [])"
    by (simp add: env_down_def)
  show ?thesis
    using read_timeout [OF b(1) q] b q by simp
qed

section \<open>Stopping a recording\<close>





section \<open>The admin callback\<close>

text \<open>
  C8: with an empty password field, \<^verbatim>\<open>sos_fct\<close> prints its message and returns:
  nothing else is performed (no SSH connection, no command) and no widget changes.
  With a non-empty password the next thing the callback does is to open the SSH
  connection with that password.
\<close>

theorem sos_fct_password:
  "(val (passwd (gui a)) = [] \<longrightarrow>
      sos_fct e button a
        = (Returned (),
           a\<lparr>effects := effects a
                @ [Print ''ERROR: please indicate the password to launch the command.'']\<rparr>))
   \<and> (val (passwd (gui a)) \<noteq> [] \<longrightarrow>
        take (Suc (length (effects a))) (effects (snd (sos_fct e button a)))
          = effects a @ [Ssh_connect (val (ip (gui a))) ''root'' (val (passwd (gui a))) 5])"
  by (simp add: sos_fct_def perform_def Let_def split: option.split sum.split)

theorem sos_fct_password_witness:
  "val (passwd (gui array_init)) = []
   \<and> sos_fct env_up (button_stop_srv (gui array_init)) array_init
       = (Returned (),
          array_init\<lparr>effects :=
            [Display, Print ''ERROR: please indicate the password to launch the command.'']\<rparr>)
   \<and> val (passwd (gui array_passwd)) \<noteq> []
   \<and> take 2 (effects (snd (sos_fct env_up (button_stop_srv (gui array_passwd)) array_passwd)))
       = [Display, Ssh_connect ''10.3.141.1'' ''root'' ''secret'' 5]"
proof -
  have i: "val (passwd (gui array_init)) = []" "effects array_init = [Display]"
    by (simp_all add: array_init_def gui_server_init_def)
  have p: "val (passwd (gui array_passwd)) = ''secret''" "effects array_passwd = [Display]"
    "val (ip (gui array_passwd)) = ''10.3.141.1''"
    by (simp_all add: array_passwd_def edit_def array_init_def gui_server_init_def)
  show ?thesis
    using sos_fct_password [of array_init env_up "button_stop_srv (gui array_init)"]
      sos_fct_password [of array_passwd env_up "button_stop_srv (gui array_passwd)"]
    by (simp add: i p numeral_2_eq_2)
qed

text \<open>
  C10: once \<^verbatim>\<open>sos_fct\<close> has connected, a button whose description is neither
  \<^verbatim>\<open>ADMIN: Stop server\<close> nor \<^verbatim>\<open>ADMIN: Start server\<close> makes it print
  \<^verbatim>\<open>Unkown button...\<close> and still execute a command on the host, \<^verbatim>\<open>ls\<close>; the view is
  left as it was. The two recognised descriptions are the ones that change the
  enablement of the start-server and stop-server buttons.
\<close>

theorem sos_fct_button:
  assumes "val (passwd (gui a)) \<noteq> []"
    and "ssh_connect e (val (ip (gui a))) ''root'' (val (passwd (gui a))) = None"
  shows "(description button \<noteq> ''ADMIN: Stop server'' \<and> description button \<noteq> ''ADMIN: Start server'' \<longrightarrow>
            effects (snd (sos_fct e button a))
              = effects a @ [Ssh_connect (val (ip (gui a))) ''root'' (val (passwd (gui a))) 5,
                             Print ''Unkown button...'', Ssh_exec_command ''ls'']
                @ (case ssh_exec_command e ''ls'' of Inl x \<Rightarrow> [] | Inr out \<Rightarrow> [Ssh_close])
            \<and> gui (snd (sos_fct e button a)) = gui a)
         \<and> (description button = ''ADMIN: Stop server'' \<longrightarrow>
              gui (snd (sos_fct e button a))
                = (gui a)\<lparr> button_start_srv := (button_start_srv (gui a))\<lparr>disabled := False\<rparr>,
                           button_stop_srv := (button_stop_srv (gui a))\<lparr>disabled := True\<rparr> \<rparr>)
         \<and> (description button = ''ADMIN: Start server'' \<longrightarrow>
              gui (snd (sos_fct e button a))
                = (gui a)\<lparr> button_start_srv := (button_start_srv (gui a))\<lparr>disabled := True\<rparr>,
                           button_stop_srv := (button_stop_srv (gui a))\<lparr>disabled := False\<rparr> \<rparr>)"
  using assms
  by (simp add: sos_fct_def perform_def Let_def split: sum.split)

theorem sos_fct_button_witness:
  "val (passwd (gui array_passwd)) \<noteq> []
   \<and> ssh_connect env_up (val (ip (gui array_passwd))) ''root'' (val (passwd (gui array_passwd))) = None
   \<and> description (button_sos (gui array_passwd)) = ''SOS''
   \<and> effects (snd (sos_fct env_up (button_sos (gui array_passwd)) array_passwd))
       = [Display, Ssh_connect ''10.3.141.1'' ''root'' ''secret'' 5, Print ''Unkown button...'',
          Ssh_exec_command ''ls'', Ssh_close]
   \<and> gui (snd (sos_fct env_up (button_sos (gui array_passwd)) array_passwd)) = gui array_passwd
   \<and> description (button_stop_srv (gui array_passwd)) = ''ADMIN: Stop server''
   \<and> \<not> disabled (button_start_srv (gui (snd (sos_fct env_up (button_stop_srv (gui array_passwd)) array_passwd))))
   \<and> disabled (button_stop_srv (gui (snd (sos_fct env_up (button_stop_srv (gui array_passwd)) array_passwd))))
   \<and> description (button_start_srv (gui array_passwd)) = ''ADMIN: Start server''
   \<and> disabled (button_start_srv (gui (snd (sos_fct env_up (button_start_srv (gui array_passwd)) array_passwd))))
   \<and> \<not> disabled (button_stop_srv (gui (snd (sos_fct env_up (button_start_srv (gui array_passwd)) array_passwd))))"
proof -
  have p: "val (passwd (gui array_passwd)) = ''secret''" "effects array_passwd = [Display]"
    "val (ip (gui array_passwd)) = ''10.3.141.1''"
    "description (button_sos (gui array_passwd)) = ''SOS''"
    "description (button_stop_srv (gui array_passwd)) = ''ADMIN: Stop server''"
    "description (button_start_srv (gui array_passwd)) = ''ADMIN: Start server''"
    by (simp_all add: array_passwd_def edit_def array_init_def gui_server_init_def)
  have n: "val (passwd (gui array_passwd)) \<noteq> []" by (simp add: p)
  have c: "ssh_connect env_up (val (ip (gui array_passwd))) ''root'' (val (passwd (gui array_passwd))) = None"
    "ssh_exec_command env_up ''ls'' = Inr [''active\<newline>'']"
    by (simp_all add: env_up_def)
  show ?thesis
    using sos_fct_button [OF n c(1), of "button_sos (gui array_passwd)"]
      sos_fct_button [OF n c(1), of "button_stop_srv (gui array_passwd)"]
      sos_fct_button [OF n c(1), of "button_start_srv (gui array_passwd)"]
    by (simp add: p c env_up_def)
qed

section \<open>The playback view's buttons\<close>

text \<open>
  C9: \<^verbatim>\<open>update_data_info\<close> shows the sampling frequency and the duration, enables the
  play button and disables the stop button; \<^verbatim>\<open>start_read\<close> disables play and enables
  stop; \<^verbatim>\<open>stop_read\<close> enables play and disables stop. After each of the three exactly
  one of the two buttons is enabled.
\<close>

theorem play_stop_enablement:
  "disabled (button_startplay (update_data_info f d g)) = False
   \<and> disabled (button_stopplay (update_data_info f d g)) = True
   \<and> val (gui_play.fs (update_data_info f d g)) = f
   \<and> val (gui_play.status (update_data_info f d g)) = ''File duration = '' @ d @ ''s.''
   \<and> disabled (button_startplay (start_read g)) = True
   \<and> disabled (button_stopplay (start_read g)) = False
   \<and> disabled (button_startplay (stop_read g)) = False
   \<and> disabled (button_stopplay (stop_read g)) = True
   \<and> disabled (button_startplay (update_data_info f d g)) \<noteq> disabled (button_stopplay (update_data_info f d g))
   \<and> disabled (button_startplay (start_read g)) \<noteq> disabled (button_stopplay (start_read g))
   \<and> disabled (button_startplay (stop_read g)) \<noteq> disabled (button_stopplay (stop_read g))"
  by (simp add: update_data_info_def start_read_def stop_read_def)

section \<open>The connection inputs over a session\<close>

lemma validateAcq_fct_conn:
  "connection_inputs (gui (snd (validateAcq_fct b a))) = connection_inputs (gui a)"
  by (simp add: validateAcq_fct_def perform_def connection_inputs_def Let_def)

lemma settings_conn:
  "connection_inputs (gui (snd (validateAcq_fct_settings e a)))
     = (if fst (validateAcq_fct_settings e a) = Returned () then [True, True, True, True]
        else connection_inputs (gui a))"
  by (simp add: validateAcq_fct_settings_def perform_def connection_inputs_def Let_def
      ready_to_start_def split: option.split sum.split)

lemma startacq_fct_conn:
  "connection_inputs (gui (snd (startacq_fct e b a))) = connection_inputs (gui a)"
  using mu32_run_gui [of e acq_kwargs a]
  by (cases "mu32_run e acq_kwargs a"; cases "fst (mu32_run e acq_kwargs a)")
     (simp_all add: startacq_fct_def startacq_try_def connection_inputs_def start_acq_def
        gui_server_update_status_def)

lemma stopacq_fct_conn:
  "connection_inputs (gui (snd (stopacq_fct e b a))) = connection_inputs (gui a)"
  using mu32_method_gui [of e Halt a]
  by (cases "mu32_method e Halt a"; cases "fst (mu32_method e Halt a)")
     (simp_all add: stopacq_fct_def connection_inputs_def stop_acq_def)

lemma startrec_try_gui: "gui (snd (startrec_try e a)) = start_rec (gui a)"
proof -
  let ?a0 = "a\<lparr>gui := start_rec (gui a)\<rparr>"
  obtain r a1 where h: "mu32_run e rec_kwargs ?a0 = (r, a1)"
    by (cases "mu32_run e rec_kwargs ?a0")
  with mu32_run_gui [of e rec_kwargs ?a0] have g: "gui a1 = start_rec (gui a)"
    by simp
  show ?thesis
    using h g mu32_method_gui [of e H5_start a1]
    by (cases r) (simp_all add: startrec_try_def)
qed

lemma startrec_fct_gui: "gui (snd (startrec_fct e b a)) = start_rec (gui a)"
  using startrec_try_gui [of e a]
  by (cases "startrec_try e a"; cases "fst (startrec_try e a)")
     (simp_all add: startrec_fct_def str_plus_exn_def)

lemma startrec_fct_conn:
  "connection_inputs (gui (snd (startrec_fct e b a))) = connection_inputs (gui a)"
  by (simp add: startrec_fct_gui connection_inputs_def start_rec_def)

lemma stoprec_fct_gui:
  "gui (snd (stoprec_fct e b a))
     = (if fst (stoprec_fct e b a) = Returned () then stop_rec (gui a) else gui a)"
  by (simp add: stoprec_fct_def mu32_method_def call_mu32_def perform_def
      split: option.split)

lemma stoprec_fct_conn:
  "connection_inputs (gui (snd (stoprec_fct e b a))) = connection_inputs (gui a)"
  by (simp add: stoprec_fct_gui connection_inputs_def stop_rec_def)

lemma read_conn: "connection_inputs (gui (snd (read e a))) = connection_inputs (gui a)"
  by (simp add: read_def perform_def connection_inputs_def gui_server_update_status_def Let_def
      split: option.split sum.split)

lemma sos_conn:
  "connection_inputs (fst (snd (sos e b g)))
     = [disabled (ip g), disabled (port g), disabled (array_nb g), True]"
  by (simp add: sos_def sos_mode_def sos_probe_def connection_inputs_def Let_def
      split: option.split sum.split)

lemma gui_sos_conn:
  "connection_inputs (gui (snd (gui_sos e b a)))
     = [disabled (ip (gui a)), disabled (port (gui a)), disabled (array_nb (gui a)), True]"
  using sos_conn [of e b "gui a"]
  by (cases "sos e b (gui a)") (simp add: gui_sos_def)

lemma sos_fct_conn:
  "connection_inputs (gui (snd (sos_fct e b a))) = connection_inputs (gui a)"
  by (simp add: sos_fct_def perform_def connection_inputs_def Let_def
      split: option.split sum.split)

text \<open>
  One operation: the settings task, when it returns, disables all four inputs; the
  view's \<^verbatim>\<open>sos\<close> disables the Confirm button; nothing else touches them and nothing
  enables them again.
\<close>

lemma run_op_conn:
  "connection_inputs (gui (snd (run_op e x a)))
     = (let r = (x = Op_validateAcq_fct_settings \<and> fst (run_op e x a) = None)
        in [disabled (ip (gui a)) \<or> r, disabled (port (gui a)) \<or> r,
            disabled (array_nb (gui a)) \<or> r, disabled (button_connect (gui a)) \<or> r \<or> x = Op_sos])"
proof (cases x)
  case Op_validateAcq_fct
  then show ?thesis using validateAcq_fct_conn [of "button_connect (gui a)" a]
    by (simp add: connection_inputs_def)
next
  case Op_validateAcq_fct_settings
  then show ?thesis using settings_conn [of e a]
    by (auto simp add: connection_inputs_def raised_None)
next
  case Op_startacq_fct
  then show ?thesis using startacq_fct_conn [of e "button_startacq (gui a)" a]
    by (simp add: connection_inputs_def)
next
  case Op_stopacq_fct
  then show ?thesis using stopacq_fct_conn [of e "button_stopacq (gui a)" a]
    by (simp add: connection_inputs_def)
next
  case Op_startrec_fct
  then show ?thesis using startrec_fct_conn [of e "button_startrec (gui a)" a]
    by (simp add: connection_inputs_def)
next
  case Op_stoprec_fct
  then show ?thesis using stoprec_fct_conn [of e "button_stoprec (gui a)" a]
    by (simp add: connection_inputs_def)
next
  case Op_read
  then show ?thesis using read_conn [of e a]
    by (simp add: connection_inputs_def)
next
  case Op_sos
  then show ?thesis using gui_sos_conn [of e "button_sos (gui a)" a]
    by (simp add: connection_inputs_def)
next
  case (Op_sos_fct b)
  then show ?thesis using sos_fct_conn [of e b a]
    by (simp add: connection_inputs_def)
qed (simp_all add: edit_def connection_inputs_def)

lemma reachable_sos_only: "reachable [(Op_sos, None)] (snd (run_op env_up Op_sos array_init))"
proof -
  have "fst (run_op env_up Op_sos array_init) = None"
    by (simp add: gui_sos_def sos_def env_up_def raised_def Let_def)
  with reachable.step [OF reachable.start, of Op_sos env_up] show ?thesis
    by simp
qed

lemma reachable_ready:
  "reachable [(Op_validateAcq_fct_settings, None), (Op_validateAcq_fct, None)] array_ready"
proof -
  let ?b = "snd (validateAcq_fct (button_connect gui_server_init) array_init)"
  have v: "fst (run_op env_up Op_validateAcq_fct array_init) = None"
    "snd (run_op env_up Op_validateAcq_fct array_init) = ?b"
    by (simp_all add: validateAcq_fct_def raised_def array_init_def gui_server_init_def Let_def)
  have s: "fst (run_op env_up Op_validateAcq_fct_settings ?b) = None"
    "snd (run_op env_up Op_validateAcq_fct_settings ?b) = array_ready"
    by (simp_all add: array_ready_def validateAcq_fct_settings_def validateAcq_fct_def raised_def
        array_init_def gui_server_init_def env_up_def perform_def Let_def py_range_values)
  from reachable.step [OF reachable.start, of Op_validateAcq_fct env_up]
  have "reachable [(Op_validateAcq_fct, None)] ?b"
    by (simp only: v)
  from reachable.step [OF this, of Op_validateAcq_fct_settings env_up] show ?thesis
    by (simp only: s)
qed

text \<open>
  C7, as stated, says that in every reachable state each connection input is disabled
  exactly when \<^verbatim>\<open>ready_to_start\<close> has run, and that nothing disables one of them
  before. A click on the SOS button of a new front-end is a session in which
  \<^verbatim>\<open>ready_to_start\<close> has not run and the Confirm button is disabled, while the address
  input is not: the view's \<^verbatim>\<open>sos\<close> disables the Confirm button itself.
\<close>

theorem connection_inputs_counterexample:
  "reachable [(Op_sos, None)] (snd (run_op env_up Op_sos array_init))
   \<and> \<not> ready_ran [(Op_sos, None)]
   \<and> disabled (button_connect (gui (snd (run_op env_up Op_sos array_init))))
   \<and> \<not> disabled (ip (gui (snd (run_op env_up Op_sos array_init))))"
proof -
  have "\<not> ready_ran [(Op_sos, None)]"
    by (simp add: ready_ran_def)
  moreover have "disabled (button_connect (gui (snd (run_op env_up Op_sos array_init))))
      \<and> \<not> disabled (ip (gui (snd (run_op env_up Op_sos array_init))))"
    using gui_sos_conn [of env_up "button_sos (gui array_init)" array_init]
    by (simp add: connection_inputs_def array_init_def gui_server_init_def)
  ultimately show ?thesis
    using reachable_sos_only by simp
qed

text \<open>
  C7, amended: in every reachable state of the server front-end the address, port and
  selector inputs are disabled exactly when \<^verbatim>\<open>ready_to_start\<close> has run (the settings
  task has returned), and the Confirm button is disabled exactly when
  \<^verbatim>\<open>ready_to_start\<close> has run or the view's \<^verbatim>\<open>sos\<close> has been entered. So before
  \<^verbatim>\<open>ready_to_start\<close> the only operation that disables a connection input is the
  view's \<^verbatim>\<open>sos\<close>, and what it disables is the Confirm button.
\<close>

theorem connection_inputs_reachable:
  assumes "reachable tr a"
  shows "connection_inputs (gui a)
           = [ready_ran tr, ready_ran tr, ready_ran tr, ready_ran tr \<or> sos_entered tr]"
  using assms
proof (induction rule: reachable.induct)
  case start
  show ?case
    by (simp add: connection_inputs_def array_init_def gui_server_init_def ready_ran_def
        sos_entered_def)
next
  case (step tr a x e)
  from step.IH have
    "disabled (ip (gui a)) = ready_ran tr" "disabled (port (gui a)) = ready_ran tr"
    "disabled (array_nb (gui a)) = ready_ran tr"
    "disabled (button_connect (gui a)) = (ready_ran tr \<or> sos_entered tr)"
    by (simp_all add: connection_inputs_def)
  then show ?case
    by (auto simp add: run_op_conn [of e x a] Let_def ready_ran_def sos_entered_def)
qed

theorem connection_inputs_reachable_witness:
  "reachable [(Op_validateAcq_fct_settings, None), (Op_validateAcq_fct, None)] array_ready
   \<and> connection_inputs (gui array_ready) = [True, True, True, True]
   \<and> reachable [(Op_sos, None)] (snd (run_op env_up Op_sos array_init))
   \<and> connection_inputs (gui (snd (run_op env_up Op_sos array_init))) = [False, False, False, True]"
  using connection_inputs_reachable [OF reachable_ready]
    connection_inputs_reachable [OF reachable_sos_only] reachable_ready reachable_sos_only
  by (simp add: ready_ran_def sos_entered_def)

end
